theory Spec2Isabelle
  imports Main "HOL-Library.Word"
begin

section \<open>JavaScript strings\<close>

text \<open>
  A JavaScript string is a sequence of 16-bit code units; a regular expression without
  the \<open>u\<close> flag works on code units.  Source literals are written with \<open>js\<close>.
\<close>

type_synonym code_unit = "16 word"

type_synonym jsstring = "code_unit list"

definition js :: "string \<Rightarrow> jsstring" where
  "js s = map of_char s"

definition at_sign :: code_unit where
  "at_sign = 0x40"

definition dot :: code_unit where
  "dot = 0x2E"

definition dquote :: code_unit where
  "dquote = 0x22"

text \<open>
  The class \<open>\s\<close> of ECMAScript: WhiteSpace (TAB, VT, FF, SP, NBSP, ZWNBSP and the
  Unicode space separators) and LineTerminator (LF, CR, LS, PS).
\<close>

definition is_space :: "code_unit \<Rightarrow> bool" where
  "is_space c =
     (c = 0x09 \<or> c = 0x0A \<or> c = 0x0B \<or> c = 0x0C \<or> c = 0x0D \<or> c = 0x20 \<or>
      c = 0xA0 \<or> c = 0x1680 \<or> (0x2000 \<le> c \<and> c \<le> 0x200A) \<or>
      c = 0x2028 \<or> c = 0x2029 \<or> c = 0x202F \<or> c = 0x205F \<or> c = 0x3000 \<or>
      c = 0xFEFF)"

section \<open>The regular expression of validateEmail\<close>

text \<open>
  \<^verbatim>\<open>/^[^\s@]+@[^"]+\.[^\s@]+$/\<close> is a sequence of five terms between the anchors
  \<open>^\<close> and \<open>$\<close>: each term is an atom, taken once or (greedily) one or more times.
  An atom is a literal code unit or a negated character class, whose members are
  literals or the class \<open>\s\<close>.
\<close>

datatype class_member = Space | Lit code_unit

datatype atom = Ch code_unit | NotIn "class_member list"

datatype rterm = Once atom | OneOrMore atom

fun member_matches :: "class_member \<Rightarrow> code_unit \<Rightarrow> bool" where
  "member_matches Space c = is_space c"
| "member_matches (Lit l) c = (c = l)"

fun atom_matches :: "atom \<Rightarrow> code_unit \<Rightarrow> bool" where
  "atom_matches (Ch l) c = (c = l)"
| "atom_matches (NotIn ms) c = (\<not> list_ex (\<lambda>m. member_matches m c) ms)"

text \<open>
  The backtracking matcher, from the current position to the end of the input (the
  anchor \<open>$\<close>, without the \<open>m\<close> flag): a \<open>+\<close> term first tries to take one more
  code unit and falls back to the rest of the pattern.
\<close>

fun run_terms :: "rterm list \<Rightarrow> jsstring \<Rightarrow> bool" where
  "run_terms [] s = (s = [])"
| "run_terms (t # ts) [] = False"
| "run_terms (Once a # ts) (c # cs) = (atom_matches a c \<and> run_terms ts cs)"
| "run_terms (OneOrMore a # ts) (c # cs) =
     (atom_matches a c \<and> (run_terms (OneOrMore a # ts) cs \<or> run_terms ts cs))"

definition email_regex :: "rterm list" where
  "email_regex =
     [OneOrMore (NotIn [Space, Lit at_sign]), Once (Ch at_sign),
      OneOrMore (NotIn [Lit dquote]), Once (Ch dot),
      OneOrMore (NotIn [Space, Lit at_sign])]"

text \<open>\<open>regex.test(email)\<close>: the anchor \<open>^\<close> fixes the start at index 0.\<close>

definition validateEmail :: "jsstring \<Rightarrow> bool" where
  "validateEmail email = run_terms email_regex email"

text \<open>
  The pattern in the words of the specification: one or more non-whitespace-non-"@"
  characters, "@", one or more non-quote characters, ".", one or more
  non-whitespace-non-"@" characters.
\<close>

definition plain_char :: "code_unit \<Rightarrow> bool" where
  "plain_char c = (\<not> is_space c \<and> c \<noteq> at_sign)"

definition spec_email_pattern :: "jsstring \<Rightarrow> bool" where
  "spec_email_pattern s =
     (\<exists>a b c. s = a @ at_sign # b @ dot # c \<and>
        a \<noteq> [] \<and> list_all plain_char a \<and>
        b \<noteq> [] \<and> dquote \<notin> set b \<and>
        c \<noteq> [] \<and> list_all plain_char c)"

section \<open>Values exchanged with the browser\<close>

text \<open>A Blob: its bytes and its declared MIME type.\<close>

record blob =
  bytes :: "8 word list"
  mime :: jsstring

definition blob_size :: "blob \<Rightarrow> nat" where
  "blob_size b = length (bytes b)"

text \<open>\<open>new Blob(parts, {type})\<close>: the parts' bytes, in order.\<close>

definition new_Blob :: "blob list \<Rightarrow> jsstring \<Rightarrow> blob" where
  "new_Blob parts ty = \<lparr>bytes = concat (map bytes parts), mime = ty\<rparr>"

text \<open>
  JSON values.  The program never reads a number, so its value is left out.
\<close>

datatype json =
    JNull
  | JBool bool
  | JNumber
  | JStr jsstring
  | JArr "json list"
  | JObj "(jsstring \<times> json) list"

datatype jsval = Undefined | Val json

datatype js_error = JsError (error_name: jsstring) (error_message: jsstring)

text \<open>
  What an awaited promise does: it resolves, it rejects, or it never settles.
\<close>

datatype 'a promise = Resolves 'a | Rejects js_error | Pending

text \<open>
  \<open>transcriptionResult.text\<close>: a property read on \<open>null\<close> throws the engine's
  TypeError; an object gives its own property (the last one of a repeated key, as
  \<open>JSON.parse\<close> keeps it) or \<open>undefined\<close>; every other JSON value has no such
  property.
\<close>

fun read_text_property :: "js_error \<Rightarrow> json \<Rightarrow> js_error + jsval" where
  "read_text_property te JNull = Inl te"
| "read_text_property te (JObj kvs) =
     Inr (case map_of (rev kvs) (js ''text'') of None \<Rightarrow> Undefined | Some v \<Rightarrow> Val v)"
| "read_text_property te (JBool b) = Inr Undefined"
| "read_text_property te JNumber = Inr Undefined"
| "read_text_property te (JStr s) = Inr Undefined"
| "read_text_property te (JArr xs) = Inr Undefined"

record response =
  status :: nat
  json_body :: "json promise"

text \<open>\<open>response.ok\<close>: the status is in the range 200 to 299.\<close>

definition response_ok :: "response \<Rightarrow> bool" where
  "response_ok r = (200 \<le> status r \<and> status r \<le> 299)"

datatype form_value = FileValue blob jsstring | TextValue jsstring

datatype request_body = FormData "(jsstring \<times> form_value) list" | JsonText json

record request =
  url :: jsstring
  http_method :: jsstring
  headers :: "(jsstring \<times> jsstring) list"
  body :: request_body

text \<open>
  Every call the component makes into the browser is recorded, in order.  Streams,
  audio contexts and recorders are named by numbers the browser hands out.
\<close>

datatype host_call =
    GetUserMedia
  | GetDisplayMedia
  | NewAudioContext
  | BuildGraph
  | NewMediaRecorder
  | RecorderStart nat
  | RecorderStop nat
  | StopTracks nat
  | CloseContext nat
  | Fetch request
  | ConsoleError

text \<open>
  A recorder with what its \<open>onstop\<close> handler closes over: the two input streams
  and the audio context.
\<close>

record recorder =
  rec_mic :: nat
  rec_tab :: nat
  rec_ctx :: nat

section \<open>The component's state and the browser's\<close>

text \<open>
  The eight \<open>useState\<close> cells and the two refs of \<open>AudioRecorderPage\<close>, and the
  browser's side: the streams whose tracks are live, the audio contexts that are open,
  the recorders created, the next free number and the log of calls.
\<close>

record world =
  isRecording :: bool
  audioBlob :: "blob option"
  apiKey :: jsstring
  email :: jsstring
  transcription :: jsval
  isProcessing :: bool
  message :: jsstring
  hasAudio :: bool
  mediaRecorderRef :: "nat option"
  audioChunksRef :: "blob list"
  live_streams :: "nat list"
  open_contexts :: "nat list"
  recorders :: "(nat \<times> recorder) list"
  next_id :: nat
  calls :: "host_call list"

definition initial_world :: world where
  "initial_world =
     \<lparr>isRecording = False, audioBlob = None, apiKey = [], email = [],
      transcription = Val (JStr []), isProcessing = False, message = [],
      hasAudio = False, mediaRecorderRef = None, audioChunksRef = [],
      live_streams = [], open_contexts = [], recorders = [], next_id = 0, calls = []\<rparr>"

definition log_call :: "host_call \<Rightarrow> world \<Rightarrow> world" where
  "log_call c w = w\<lparr>calls := calls w @ [c]\<rparr>"

text \<open>
  Each handler is modelled as one function on this state: it reads the state of the
  render in which it was invoked and applies its setters in the order of the source.
  What the browser answers while the handler waits is a parameter of the function.
  Events are not interleaved with a handler that is waiting; a handler whose awaited
  promise never settles leaves the state it had reached.
\<close>

section \<open>startRecording\<close>

text \<open>
  What the browser answers during one run of \<open>startRecording\<close>: the two stream
  requests, and whether a constructor or call of the synchronous part throws
  (\<open>new AudioContext()\<close>; the three node constructors and the two \<open>connect\<close> calls;
  \<open>new MediaRecorder\<close>; \<open>mediaRecorder.start()\<close>).
\<close>

record start_env =
  mic_request :: "unit promise"
  tab_request :: "unit promise"
  context_new :: "js_error option"
  graph_build :: "js_error option"
  recorder_new :: "js_error option"
  recorder_start :: "js_error option"

text \<open>The \<open>catch\<close> block: \<open>console.error\<close> and the message; nothing is released.\<close>

definition start_catch :: "world \<Rightarrow> world" where
  "start_catch w =
     (log_call ConsoleError w)
       \<lparr>message := js ''Error: Could not start recording. Please check permissions.''\<rparr>"

text \<open>
  The synchronous part of the \<open>try\<close> block, after both streams are there:
  lines 39 to 76 of the source.
\<close>

definition start_sync :: "start_env \<Rightarrow> nat \<Rightarrow> nat \<Rightarrow> world \<Rightarrow> world" where
  "start_sync env mic tab w =
     (let w1 = log_call NewAudioContext w in
      (case context_new env of
         Some e \<Rightarrow> start_catch w1
       | None \<Rightarrow>
          (let ctx = next_id w1;
               w2 = w1\<lparr>open_contexts := ctx # open_contexts w1, next_id := Suc ctx\<rparr>;
               w3 = log_call BuildGraph w2
           in (case graph_build env of
                 Some e \<Rightarrow> start_catch w3
               | None \<Rightarrow>
                  (let w4 = log_call NewMediaRecorder w3 in
                   (case recorder_new env of
                      Some e \<Rightarrow> start_catch w4
                    | None \<Rightarrow>
                       (let rid = next_id w4;
                            w5 = w4\<lparr>recorders :=
                                      (rid, \<lparr>rec_mic = mic, rec_tab = tab, rec_ctx = ctx\<rparr>) #
                                        recorders w4,
                                    next_id := Suc rid\<rparr>;
                            w6 = w5\<lparr>audioChunksRef := []\<rparr>;
                            w7 = w6\<lparr>mediaRecorderRef := Some rid\<rparr>;
                            w8 = log_call (RecorderStart rid) w7
                        in (case recorder_start env of
                              Some e \<Rightarrow> start_catch w8
                            | None \<Rightarrow>
                                w8\<lparr>isRecording := True,
                                   message :=
                                     js ''Recording started... Click DONE when finished.''\<rparr>))))))))"

text \<open>
  The whole handler.  The result says whether the run settled (it does unless an
  awaited request never answers) and gives the state it leaves.
\<close>

definition startRecording :: "start_env \<Rightarrow> world \<Rightarrow> bool \<times> world" where
  "startRecording env w =
     (let w1 = log_call GetUserMedia w in
      (case mic_request env of
         Pending \<Rightarrow> (False, w1)
       | Rejects e \<Rightarrow> (True, start_catch w1)
       | Resolves u \<Rightarrow>
          (let mic = next_id w1;
               w2 = w1\<lparr>live_streams := mic # live_streams w1, next_id := Suc mic\<rparr>;
               w3 = log_call GetDisplayMedia w2
           in (case tab_request env of
                 Pending \<Rightarrow> (False, w3)
               | Rejects e \<Rightarrow> (True, start_catch w3)
               | Resolves u' \<Rightarrow>
                  (let tab = next_id w3;
                       w4 = w3\<lparr>live_streams := tab # live_streams w3, next_id := Suc tab\<rparr>
                   in (True, start_sync env mic tab w4))))))"

section \<open>The recorder's handlers and stopRecording\<close>

text \<open>\<open>mediaRecorder.ondataavailable\<close>: an empty chunk is not buffered.\<close>

definition ondataavailable :: "blob \<Rightarrow> world \<Rightarrow> world" where
  "ondataavailable d w =
     (if blob_size d > 0 then w\<lparr>audioChunksRef := audioChunksRef w @ [d]\<rparr> else w)"

definition stop_tracks :: "nat \<Rightarrow> world \<Rightarrow> world" where
  "stop_tracks s w = (log_call (StopTracks s) w)\<lparr>live_streams := removeAll s (live_streams w)\<rparr>"

definition close_context :: "nat \<Rightarrow> world \<Rightarrow> world" where
  "close_context c w =
     (log_call (CloseContext c) w)\<lparr>open_contexts := removeAll c (open_contexts w)\<rparr>"

text \<open>
  \<open>mediaRecorder.onstop\<close> of the recorder \<open>rid\<close>.  The browser fires it only for a
  recorder it created; for any other number the event does not exist and the state
  stays as it is.
\<close>

definition onstop :: "nat \<Rightarrow> world \<Rightarrow> world" where
  "onstop rid w =
     (case map_of (recorders w) rid of
        None \<Rightarrow> w
      | Some r \<Rightarrow>
          let b = new_Blob (audioChunksRef w) (js ''audio/webm'');
              w1 = w\<lparr>audioBlob := Some b\<rparr>;
              w2 = w1\<lparr>hasAudio := True\<rparr>;
              w3 = stop_tracks (rec_mic r) w2;
              w4 = stop_tracks (rec_tab r) w3
          in close_context (rec_ctx r) w4)"

definition stopped_message :: jsstring where
  "stopped_message =
     js ''Recording stopped. Click '' @ dquote # js ''Process Audio'' @ dquote #
       js '' to transcribe.''"

text \<open>
  \<open>stopRecording\<close>.  The argument is what \<open>mediaRecorderRef.current.stop()\<close> throws,
  if anything (an engine may throw InvalidStateError on an inactive recorder); the
  first result is the exception that leaves the handler.
\<close>

definition stopRecording :: "js_error option \<Rightarrow> world \<Rightarrow> js_error option \<times> world" where
  "stopRecording thrown w =
     (case mediaRecorderRef w of
        None \<Rightarrow> (None, w)
      | Some rid \<Rightarrow>
          (if isRecording w then
             (let w1 = log_call (RecorderStop rid) w in
              (case thrown of
                 Some e \<Rightarrow> (Some e, w1)
               | None \<Rightarrow> (None, w1\<lparr>isRecording := False, message := stopped_message\<rparr>)))
           else (None, w)))"

section \<open>processAudio\<close>

record process_env =
  whisper_fetch :: "response promise"
  lamatic_fetch :: "response promise"
  type_error :: js_error

definition whisper_url :: jsstring where
  "whisper_url = js ''https://api.openai.com/v1/audio/transcriptions''"

definition lamatic_url :: jsstring where
  "lamatic_url = js ''https://api.lamatic.ai/v1/workflows/run''"

definition whisper_request :: "jsstring \<Rightarrow> blob \<Rightarrow> request" where
  "whisper_request key b =
     \<lparr>url = whisper_url, http_method = js ''POST'',
      headers = [(js ''Authorization'', js ''Bearer '' @ key)],
      body = FormData
        [(js ''file'', FileValue (new_Blob [b] (js ''audio/webm'')) (js ''recording.webm'')),
         (js ''model'', TextValue (js ''whisper-1''))]\<rparr>"

text \<open>\<open>JSON.stringify\<close> leaves out a property whose value is \<open>undefined\<close>.\<close>

definition lamatic_request :: "jsval \<Rightarrow> jsstring \<Rightarrow> request" where
  "lamatic_request t mail =
     \<lparr>url = lamatic_url, http_method = js ''POST'',
      headers = [(js ''Content-Type'', js ''application/json'')],
      body = JsonText (JObj
        [(js ''workflow_id'', JStr (js ''your-workflow-id'')),
         (js ''inputs'', JObj
            ((case t of Undefined \<Rightarrow> [] | Val v \<Rightarrow> [(js ''transcribed_text'', v)]) @
             [(js ''user_email'', JStr mail)]))])\<rparr>"

datatype outcome = Returns | Throws js_error | Hangs

text \<open>The \<open>try\<close> block of \<open>processAudio\<close>, lines 102 to 147 of the source.\<close>

definition process_try :: "process_env \<Rightarrow> blob \<Rightarrow> world \<Rightarrow> outcome \<times> world" where
  "process_try env b w =
     (let w1 = log_call (Fetch (whisper_request (apiKey w) b)) w in
      (case whisper_fetch env of
         Pending \<Rightarrow> (Hangs, w1)
       | Rejects e \<Rightarrow> (Throws e, w1)
       | Resolves whisperResponse \<Rightarrow>
          (if \<not> response_ok whisperResponse
           then (Throws (JsError (js ''Error'') (js ''Transcription failed'')), w1)
           else
            (case json_body whisperResponse of
               Pending \<Rightarrow> (Hangs, w1)
             | Rejects e \<Rightarrow> (Throws e, w1)
             | Resolves transcriptionResult \<Rightarrow>
                (case read_text_property (type_error env) transcriptionResult of
                   Inl e \<Rightarrow> (Throws e, w1)
                 | Inr transcribedText \<Rightarrow>
                    (let w2 = w1\<lparr>transcription := transcribedText\<rparr>;
                         w3 = w2\<lparr>message :=
                                  js ''Transcription complete. Sending to Lamatic AI...''\<rparr>;
                         w4 = log_call
                                (Fetch (lamatic_request transcribedText (email w))) w3
                     in (case lamatic_fetch env of
                           Pending \<Rightarrow> (Hangs, w4)
                         | Rejects e \<Rightarrow> (Throws e, w4)
                         | Resolves lamaticResponse \<Rightarrow>
                            (if \<not> response_ok lamaticResponse
                             then (Throws (JsError (js ''Error'')
                                     (js ''Failed to send to Lamatic AI'')), w4)
                             else (Returns, w4\<lparr>message :=
                                     js ''Success! Audio processed and sent to Lamatic AI. Check your email for results.''\<rparr>)))))))))"

definition process_refused :: "world \<Rightarrow> world" where
  "process_refused w =
     w\<lparr>message :=
         js ''Please ensure you have recorded audio, entered a valid API key, and email.''\<rparr>"

text \<open>
  The whole handler: the guard, the two setters, then \<open>try\<close>, \<open>catch\<close> and
  \<open>finally\<close>.  The first result says whether the run settled.
\<close>

definition processAudio :: "process_env \<Rightarrow> world \<Rightarrow> bool \<times> world" where
  "processAudio env w =
     (case audioBlob w of
        None \<Rightarrow> (True, process_refused w)
      | Some b \<Rightarrow>
          (if apiKey w = [] \<or> \<not> validateEmail (email w) then (True, process_refused w)
           else
            (let w1 = w\<lparr>isProcessing := True\<rparr>;
                 w2 = w1\<lparr>message := js ''Transcribing audio...''\<rparr>
             in (case process_try env b w2 of
                   (Hangs, w3) \<Rightarrow> (False, w3)
                 | (Returns, w3) \<Rightarrow> (True, w3\<lparr>isProcessing := False\<rparr>)
                 | (Throws e, w3) \<Rightarrow>
                     (True, (log_call ConsoleError w3)
                        \<lparr>message := js ''Error: '' @ error_message e,
                         isProcessing := False\<rparr>)))))"

section \<open>The rendered controls and the events\<close>

text \<open>
  The three buttons of the JSX: when each is rendered and when it is disabled.  A
  button that is not rendered or is disabled delivers no click.
\<close>

definition start_shown :: "world \<Rightarrow> bool" where
  "start_shown w = (\<not> isRecording w \<and> \<not> hasAudio w)"

definition start_disabled :: "world \<Rightarrow> bool" where
  "start_disabled w = (apiKey w = [] \<or> \<not> validateEmail (email w))"

definition stop_shown :: "world \<Rightarrow> bool" where
  "stop_shown w = isRecording w"

definition process_shown :: "world \<Rightarrow> bool" where
  "process_shown w = (hasAudio w \<and> \<not> isRecording w)"

definition process_disabled :: "world \<Rightarrow> bool" where
  "process_disabled w = isProcessing w"

datatype event =
    ChangeApiKey jsstring
  | ChangeEmail jsstring
  | ClickStart start_env
  | ClickStop "js_error option"
  | ClickProcess process_env
  | DataAvailable blob
  | RecorderStopped nat

fun step :: "event \<Rightarrow> world \<Rightarrow> world" where
  "step (ChangeApiKey v) w = w\<lparr>apiKey := v\<rparr>"
| "step (ChangeEmail v) w = w\<lparr>email := v\<rparr>"
| "step (ClickStart env) w =
     (if start_shown w \<and> \<not> start_disabled w then snd (startRecording env w) else w)"
| "step (ClickStop thrown) w =
     (if stop_shown w then snd (stopRecording thrown w) else w)"
| "step (ClickProcess env) w =
     (if process_shown w \<and> \<not> process_disabled w then snd (processAudio env w) else w)"
| "step (DataAvailable d) w = ondataavailable d w"
| "step (RecorderStopped rid) w = onstop rid w"

definition run :: "event list \<Rightarrow> world \<Rightarrow> world" where
  "run evs w = fold step evs w"

section \<open>Vocabulary of the properties\<close>

text \<open>Which recorded calls are the two network calls, and which ask for a stream.\<close>

fun is_transcribe :: "host_call \<Rightarrow> bool" where
  "is_transcribe (Fetch r) = (url r = whisper_url)"
| "is_transcribe c = False"

fun is_relay :: "host_call \<Rightarrow> bool" where
  "is_relay (Fetch r) = (url r = lamatic_url)"
| "is_relay c = False"

definition relay_count :: "host_call list \<Rightarrow> nat" where
  "relay_count cs = length (filter is_relay cs)"

fun is_stream_request :: "host_call \<Rightarrow> bool" where
  "is_stream_request GetUserMedia = True"
| "is_stream_request GetDisplayMedia = True"
| "is_stream_request c = False"

definition stream_requests :: "host_call list \<Rightarrow> nat" where
  "stream_requests cs = length (filter is_stream_request cs)"

text \<open>The calls one run of \<open>processAudio\<close> adds to the log.\<close>

definition calls_during_process :: "process_env \<Rightarrow> world \<Rightarrow> host_call list" where
  "calls_during_process env w = drop (length (calls w)) (calls (snd (processAudio env w)))"

text \<open>Every promise \<open>processAudio\<close> may await is answered.\<close>

definition all_answered :: "process_env \<Rightarrow> bool" where
  "all_answered env =
     (lamatic_fetch env \<noteq> Pending \<and>
      (case whisper_fetch env of
         Pending \<Rightarrow> False
       | Rejects e \<Rightarrow> True
       | Resolves r \<Rightarrow> json_body r \<noteq> Pending))"

text \<open>
  The transcript the first call hands to the rest of the pipeline: there is one only
  when the request resolved with a success status, its body parsed and the property
  read did not throw.
\<close>

definition transcript_of :: "process_env \<Rightarrow> jsval option" where
  "transcript_of env =
     (case whisper_fetch env of
        Resolves r \<Rightarrow>
          (if response_ok r then
             (case json_body r of
                Resolves j \<Rightarrow>
                  (case read_text_property (type_error env) j of
                     Inl e \<Rightarrow> None
                   | Inr t \<Rightarrow> Some t)
              | Rejects e \<Rightarrow> None
              | Pending \<Rightarrow> None)
           else None)
      | Rejects e \<Rightarrow> None
      | Pending \<Rightarrow> None)"



section \<open>A concrete session\<close>

text \<open>
  The end-to-end scenario of the specification: key \<open>sk-test\<close>, email \<open>a@b.co\<close>,
  a transcription answer \<open>{text: "hello world"}\<close>, a relay answer 200; and the
  failure scenarios: the tab-audio request denied, the mixing graph not constructible
  (the shared tab has no audio track), the transcription answer 500.
\<close>

definition granted_env :: start_env where
  "granted_env =
     \<lparr>mic_request = Resolves (), tab_request = Resolves (), context_new = None,
      graph_build = None, recorder_new = None, recorder_start = None\<rparr>"

definition tab_denied_env :: start_env where
  "tab_denied_env =
     granted_env\<lparr>tab_request :=
       Rejects (JsError (js ''NotAllowedError'') (js ''Permission denied''))\<rparr>"

definition engine_type_error :: js_error where
  "engine_type_error = JsError (js ''TypeError'') (js ''Cannot read properties of null'')"

definition hello_env :: process_env where
  "hello_env =
     \<lparr>whisper_fetch = Resolves
        \<lparr>status = 200, json_body = Resolves (JObj [(js ''text'', JStr (js ''hello world''))])\<rparr>,
      lamatic_fetch = Resolves \<lparr>status = 200, json_body = Resolves (JObj [])\<rparr>,
      type_error = engine_type_error\<rparr>"

definition http500_env :: process_env where
  "http500_env =
     hello_env\<lparr>whisper_fetch := Resolves \<lparr>status = 500, json_body = Resolves (JObj [])\<rparr>\<rparr>"

definition chunk_a :: blob where
  "chunk_a = \<lparr>bytes = [1, 2, 3], mime = js ''audio/webm;codecs=opus''\<rparr>"

definition chunk_b :: blob where
  "chunk_b = \<lparr>bytes = [4, 5], mime = js ''audio/webm;codecs=opus''\<rparr>"

definition ready_world :: world where
  "ready_world = run [ChangeApiKey (js ''sk-test''), ChangeEmail (js ''a@b.co'')] initial_world"

definition recording_world :: world where
  "recording_world = run [ClickStart granted_env, DataAvailable chunk_a] ready_world"

definition recorded_world :: world where
  "recorded_world =
     run [ClickStop None, DataAvailable chunk_b, RecorderStopped 3] recording_world"


definition tab_denied_world :: world where
  "tab_denied_world = run [ClickStart tab_denied_env] ready_world"

definition graph_failed_env :: start_env where
  "graph_failed_env =
     granted_env\<lparr>graph_build :=
       Some (JsError (js ''InvalidStateError'') (js ''MediaStream has no audio track''))\<rparr>"

definition graph_failed_world :: world where
  "graph_failed_world = run [ClickStart graph_failed_env] ready_world"

definition sample_artifact :: blob where
  "sample_artifact = \<lparr>bytes = [1, 2, 3, 4, 5], mime = js ''audio/webm''\<rparr>"

section \<open>Matching lemmas\<close>

lemma run_terms_once:
  "run_terms (Once a # ts) s = (\<exists>c v. s = c # v \<and> atom_matches a c \<and> run_terms ts v)"
  by (cases s) auto

lemma run_terms_plus_split:
  "run_terms (OneOrMore a # ts) s \<Longrightarrow>
     \<exists>u v. s = u @ v \<and> u \<noteq> [] \<and> list_all (atom_matches a) u \<and> run_terms ts v"
proof (induction s)
  case Nil
  then show ?case by simp
next
  case (Cons c cs)
  then have hd_ok: "atom_matches a c"
    and rest: "run_terms (OneOrMore a # ts) cs \<or> run_terms ts cs"
    by simp_all
  from rest show ?case
  proof
    assume "run_terms (OneOrMore a # ts) cs"
    then obtain u v where "cs = u @ v" "list_all (atom_matches a) u" "run_terms ts v"
      using Cons.IH by blast
    with hd_ok have "c # cs = (c # u) @ v \<and> c # u \<noteq> [] \<and>
        list_all (atom_matches a) (c # u) \<and> run_terms ts v"
      by simp
    then show ?thesis by blast
  next
    assume "run_terms ts cs"
    with hd_ok have "c # cs = [c] @ cs \<and> [c] \<noteq> [] \<and>
        list_all (atom_matches a) [c] \<and> run_terms ts cs"
      by simp
    then show ?thesis by blast
  qed
qed

lemma run_terms_plus_join:
  "u \<noteq> [] \<Longrightarrow> list_all (atom_matches a) u \<Longrightarrow> run_terms ts v \<Longrightarrow>
     run_terms (OneOrMore a # ts) (u @ v)"
proof (induction u)
  case Nil
  then show ?case by simp
next
  case (Cons c u)
  show ?case
  proof (cases "u = []")
    case True
    with Cons.prems show ?thesis by simp
  next
    case False
    with Cons show ?thesis by simp
  qed
qed

lemma run_terms_plus:
  "run_terms (OneOrMore a # ts) s =
     (\<exists>u v. s = u @ v \<and> u \<noteq> [] \<and> list_all (atom_matches a) u \<and> run_terms ts v)"
  using run_terms_plus_split run_terms_plus_join by blast

lemma atom_plain: "atom_matches (NotIn [Space, Lit at_sign]) = plain_char"
  by (rule ext) (simp add: plain_char_def)

lemma atom_noquote: "list_all (atom_matches (NotIn [Lit dquote])) b = (dquote \<notin> set b)"
  by (induction b) auto

lemma validateEmail_iff_pattern: "validateEmail s = spec_email_pattern s"
proof
  assume "validateEmail s"
  then obtain a r1 where s1: "s = a @ r1" "a \<noteq> []" "list_all plain_char a"
    and m1: "run_terms [Once (Ch at_sign), OneOrMore (NotIn [Lit dquote]), Once (Ch dot),
        OneOrMore (NotIn [Space, Lit at_sign])] r1"
    unfolding validateEmail_def email_regex_def run_terms_plus [of _ _ s] atom_plain
    by blast
  from m1 obtain r2 where s2: "r1 = at_sign # r2"
    and m2: "run_terms [OneOrMore (NotIn [Lit dquote]), Once (Ch dot),
        OneOrMore (NotIn [Space, Lit at_sign])] r2"
    unfolding run_terms_once [of _ _ r1] by auto
  from m2 obtain b r3 where s3: "r2 = b @ r3" "b \<noteq> []" "dquote \<notin> set b"
    and m3: "run_terms [Once (Ch dot), OneOrMore (NotIn [Space, Lit at_sign])] r3"
    unfolding run_terms_plus [of _ _ r2] atom_noquote by blast
  from m3 obtain r4 where s4: "r3 = dot # r4"
    and m4: "run_terms [OneOrMore (NotIn [Space, Lit at_sign])] r4"
    unfolding run_terms_once [of _ _ r3] by auto
  from m4 obtain c r5 where s5: "r4 = c @ r5" "c \<noteq> []" "list_all plain_char c"
    and m5: "run_terms [] r5"
    unfolding run_terms_plus [of _ _ r4] atom_plain by blast
  from m5 have "r5 = []" by simp
  with s1 s2 s3 s4 s5 have "s = a @ at_sign # b @ dot # c" by simp
  with s1 s3 s5 show "spec_email_pattern s"
    unfolding spec_email_pattern_def by blast
next
  assume "spec_email_pattern s"
  then obtain a b c where s: "s = a @ at_sign # b @ dot # c"
    and a: "a \<noteq> []" "list_all plain_char a"
    and b: "b \<noteq> []" "dquote \<notin> set b"
    and c: "c \<noteq> []" "list_all plain_char c"
    unfolding spec_email_pattern_def by blast
  have "run_terms [OneOrMore (NotIn [Space, Lit at_sign])] (c @ [])"
    using c by (intro run_terms_plus_join) (simp_all add: atom_plain)
  then have "run_terms [Once (Ch dot), OneOrMore (NotIn [Space, Lit at_sign])] (dot # c)"
    by simp
  then have "run_terms [OneOrMore (NotIn [Lit dquote]), Once (Ch dot),
      OneOrMore (NotIn [Space, Lit at_sign])] (b @ dot # c)"
    using b by (intro run_terms_plus_join) (simp_all add: atom_noquote)
  then have "run_terms [Once (Ch at_sign), OneOrMore (NotIn [Lit dquote]), Once (Ch dot),
      OneOrMore (NotIn [Space, Lit at_sign])] (at_sign # b @ dot # c)"
    by simp
  then have "run_terms email_regex (a @ at_sign # b @ dot # c)"
    unfolding email_regex_def
    using a by (intro run_terms_plus_join) (simp_all add: atom_plain)
  with s show "validateEmail s" by (simp add: validateEmail_def)
qed
section \<open>Facts about the handlers\<close>

lemmas start_defs = startRecording_def start_sync_def start_catch_def log_call_def Let_def

lemmas stop_defs = stopRecording_def onstop_def ondataavailable_def stop_tracks_def
  close_context_def log_call_def Let_def

lemmas process_defs = processAudio_def process_try_def process_refused_def log_call_def Let_def

lemmas button_defs = start_shown_def start_disabled_def stop_shown_def process_shown_def
  process_disabled_def

lemmas char_defs = js_def at_sign_def dot_def dquote_def is_space_def

lemma js_append: "js a @ js b = js (a @ b)"
  by (simp add: js_def)

lemma urls_differ: "whisper_url \<noteq> lamatic_url"
  by (simp add: whisper_url_def lamatic_url_def js_def)

lemma whisper_request_kind:
  "is_transcribe (Fetch (whisper_request k b))" "\<not> is_relay (Fetch (whisper_request k b))"
  using urls_differ by (simp_all add: whisper_request_def)

lemma lamatic_request_kind:
  "is_relay (Fetch (lamatic_request t m))" "\<not> is_transcribe (Fetch (lamatic_request t m))"
  using urls_differ by (simp_all add: lamatic_request_def)

subsection \<open>What each handler leaves alone\<close>



lemma processAudio_keeps:
  "hasAudio (snd (processAudio env w)) = hasAudio w"
  "audioBlob (snd (processAudio env w)) = audioBlob w"
  "isRecording (snd (processAudio env w)) = isRecording w"
  "mediaRecorderRef (snd (processAudio env w)) = mediaRecorderRef w"
  "recorders (snd (processAudio env w)) = recorders w"
  by (simp_all add: process_defs split: option.splits promise.splits sum.splits)




text \<open>
  \<open>startRecording\<close> itself has no guard: whatever the state, it asks for the
  microphone first.  The check of the credentials is the start button's.
\<close>

lemma startRecording_asks_microphone:
  "\<exists>rest. calls (snd (startRecording env w)) = calls w @ GetUserMedia # rest"
  by (simp add: start_defs split: promise.splits option.splits)

text \<open>
  A run of \<open>startRecording\<close> that settles either starts recording or ends in the
  \<open>catch\<close> block, where the recording flag is left as it was and the message is the
  error message.
\<close>

lemma startRecording_outcomes:
  "fst (startRecording env w) \<Longrightarrow>
     (isRecording (snd (startRecording env w)) \<and>
      message (snd (startRecording env w)) =
        js ''Recording started... Click DONE when finished.'') \<or>
     (isRecording (snd (startRecording env w)) = isRecording w \<and>
      message (snd (startRecording env w)) =
        js ''Error: Could not start recording. Please check permissions.'')"
  by (auto simp: start_defs split: promise.splits option.splits)

subsection \<open>The calls of processAudio\<close>

lemma process_try_calls:
  "calls (snd (process_try env b w)) =
     calls w @ Fetch (whisper_request (apiKey w) b) #
       (case transcript_of env of
          None \<Rightarrow> []
        | Some t \<Rightarrow> [Fetch (lamatic_request t (email w))])"
  by (simp add: process_try_def transcript_of_def log_call_def Let_def
      split: promise.splits sum.splits)

lemma process_try_outcome_failed:
  "whisper_fetch env = Resolves r \<Longrightarrow> \<not> response_ok r \<Longrightarrow>
     fst (process_try env b w) = Throws (JsError (js ''Error'') (js ''Transcription failed''))"
  by (simp add: process_try_def Let_def)

lemma transcript_of_SomeD:
  "transcript_of env = Some t \<Longrightarrow> \<exists>r. whisper_fetch env = Resolves r \<and> response_ok r"
  by (auto simp: transcript_of_def split: promise.splits if_splits)

lemma processAudio_refused_calls:
  "audioBlob w = None \<or> apiKey w = [] \<or> \<not> validateEmail (email w) \<Longrightarrow>
     calls (snd (processAudio env w)) = calls w"
  by (auto simp: processAudio_def process_refused_def split: option.splits)

lemma processAudio_ready_calls:
  assumes "audioBlob w = Some b" "apiKey w \<noteq> []" "validateEmail (email w)"
  shows "\<exists>tail. (tail = [] \<or> tail = [ConsoleError]) \<and>
     calls (snd (processAudio env w)) =
       calls w @ Fetch (whisper_request (apiKey w) b) #
         (case transcript_of env of
            None \<Rightarrow> []
          | Some t \<Rightarrow> [Fetch (lamatic_request t (email w))]) @ tail"
proof -
  let ?w2 = "w\<lparr>isProcessing := True, message := js ''Transcribing audio...''\<rparr>"
  obtain out w3 where pt: "process_try env b ?w2 = (out, w3)"
    by (cases "process_try env b ?w2")
  have c3: "calls w3 =
       calls w @ Fetch (whisper_request (apiKey w) b) #
         (case transcript_of env of
            None \<Rightarrow> []
          | Some t \<Rightarrow> [Fetch (lamatic_request t (email w))])"
    using process_try_calls [of env b ?w2] pt by (simp split: option.splits)
  show ?thesis
  proof (cases out)
    case Returns
    with assms pt c3 show ?thesis by (simp add: processAudio_def Let_def)
  next
    case (Throws e)
    with assms pt c3 show ?thesis by (simp add: processAudio_def log_call_def Let_def)
  next
    case Hangs
    with assms pt c3 show ?thesis by (simp add: processAudio_def Let_def)
  qed
qed

lemma processAudio_calls_split:
  "calls (snd (processAudio env w)) = calls w @ calls_during_process env w"
proof (cases "audioBlob w = None \<or> apiKey w = [] \<or> \<not> validateEmail (email w)")
  case True
  then show ?thesis
    by (simp add: calls_during_process_def processAudio_refused_calls)
next
  case False
  then obtain b where "audioBlob w = Some b" "apiKey w \<noteq> []" "validateEmail (email w)"
    by auto
  from processAudio_ready_calls [OF this, of env] show ?thesis
    by (auto simp: calls_during_process_def)
qed

lemma relay_needs_transcript:
  assumes new: "calls_during_process env w = pre @ c # post" and relay: "is_relay c"
  shows "(\<exists>t. transcript_of env = Some t \<and> c = Fetch (lamatic_request t (email w))) \<and>
    (\<exists>x \<in> set pre. is_transcribe x)"
proof (cases "audioBlob w = None \<or> apiKey w = [] \<or> \<not> validateEmail (email w)")
  case True
  then have "calls_during_process env w = []"
    by (simp add: calls_during_process_def processAudio_refused_calls)
  with new show ?thesis by simp
next
  case False
  then obtain b where ready: "audioBlob w = Some b" "apiKey w \<noteq> []" "validateEmail (email w)"
    by auto
  from processAudio_ready_calls [OF ready, of env] obtain tail where
    tail: "tail = [] \<or> tail = [ConsoleError]" and
    shape: "calls_during_process env w =
       Fetch (whisper_request (apiKey w) b) #
         (case transcript_of env of
            None \<Rightarrow> []
          | Some t \<Rightarrow> [Fetch (lamatic_request t (email w))]) @ tail"
    by (auto simp: calls_during_process_def)
  show ?thesis
  proof (cases "transcript_of env")
    case None
    with shape new tail relay whisper_request_kind(2) [of "apiKey w" b] show ?thesis
      by (auto simp: Cons_eq_append_conv append_eq_Cons_conv)
  next
    case (Some t)
    with shape new tail relay whisper_request_kind [of "apiKey w" b]
    have "pre = [Fetch (whisper_request (apiKey w) b)] \<and>
        c = Fetch (lamatic_request t (email w))"
      by (auto simp: Cons_eq_append_conv append_eq_Cons_conv)
    with Some whisper_request_kind(1) [of "apiKey w" b]
    show ?thesis by simp
  qed
qed

subsection \<open>The recorder's buffer\<close>








subsection \<open>Events\<close>














subsection \<open>The concrete session, step by step\<close>

lemma sample_email_valid: "validateEmail (js ''a@b.co'')"
  by (simp add: validateEmail_def email_regex_def char_defs)

lemma sample_key_nonempty: "js ''sk-test'' \<noteq> []"
  by (simp add: js_def)

lemma ready_world_eq:
  "ready_world = initial_world\<lparr>apiKey := js ''sk-test'', email := js ''a@b.co''\<rparr>"
  by (simp add: ready_world_def run_def)

lemma recording_world_eq:
  "recording_world =
     \<lparr>isRecording = True, audioBlob = None, apiKey = js ''sk-test'', email = js ''a@b.co'',
      transcription = Val (JStr []), isProcessing = False,
      message = js ''Recording started... Click DONE when finished.'',
      hasAudio = False, mediaRecorderRef = Some 3, audioChunksRef = [chunk_a],
      live_streams = [1, 0], open_contexts = [2],
      recorders = [(3, \<lparr>rec_mic = 0, rec_tab = 1, rec_ctx = 2\<rparr>)], next_id = 4,
      calls = [GetUserMedia, GetDisplayMedia, NewAudioContext, BuildGraph, NewMediaRecorder,
               RecorderStart 3]\<rparr>"
  by (simp add: recording_world_def run_def ready_world_eq initial_world_def button_defs
      sample_email_valid sample_key_nonempty start_defs granted_env_def
      ondataavailable_def blob_size_def chunk_a_def)

lemma recorded_world_eq:
  "recorded_world =
     \<lparr>isRecording = False,
      audioBlob = Some \<lparr>bytes = [1, 2, 3, 4, 5], mime = js ''audio/webm''\<rparr>,
      apiKey = js ''sk-test'', email = js ''a@b.co'',
      transcription = Val (JStr []), isProcessing = False,
      message = stopped_message,
      hasAudio = True, mediaRecorderRef = Some 3, audioChunksRef = [chunk_a, chunk_b],
      live_streams = [], open_contexts = [],
      recorders = [(3, \<lparr>rec_mic = 0, rec_tab = 1, rec_ctx = 2\<rparr>)], next_id = 4,
      calls = [GetUserMedia, GetDisplayMedia, NewAudioContext, BuildGraph, NewMediaRecorder,
               RecorderStart 3, RecorderStop 3, StopTracks 0, StopTracks 1, CloseContext 2]\<rparr>"
  by (simp add: recorded_world_def run_def recording_world_eq button_defs stop_defs
      blob_size_def chunk_a_def chunk_b_def new_Blob_def)

lemma recorded_world_fields:
  "audioBlob recorded_world = Some sample_artifact"
  "apiKey recorded_world = js ''sk-test''"
  "email recorded_world = js ''a@b.co''"
  "transcription recorded_world = Val (JStr [])"
  "hasAudio recorded_world" "\<not> isRecording recorded_world" "\<not> isProcessing recorded_world"
  by (simp_all add: recorded_world_eq sample_artifact_def)

lemma hello_transcript: "transcript_of hello_env = Some (Val (JStr (js ''hello world'')))"
  by (simp add: transcript_of_def hello_env_def response_ok_def)


text \<open>
  Between the click on DONE and the recorder's stop event the flag \<open>hasAudio\<close> is
  not set yet and the start button is rendered; the properties of the flag below
  speak of the states in which it is set.
\<close>

lemma start_shown_before_stop_event:
  "\<not> hasAudio (run [ClickStop None] recording_world) \<and>
   start_shown (run [ClickStop None] recording_world)"
  by (simp add: run_def recording_world_eq button_defs stop_defs)

section \<open>The email pattern\<close>

lemma plain_chars_without_at: "list_all plain_char c \<Longrightarrow> at_sign \<notin> set c"
  by (induction c) (auto simp: plain_char_def)

lemma valid_email_has_at: "validateEmail s \<Longrightarrow> at_sign \<in> set s"
  unfolding validateEmail_iff_pattern spec_email_pattern_def by auto

lemma valid_email_dot_after_at:
  assumes "validateEmail s" and "s = p @ at_sign # q"
  shows "dot \<in> set q"
proof -
  from assms(1) obtain a b c where s: "s = a @ at_sign # b @ dot # c"
    and c: "list_all plain_char c"
    unfolding validateEmail_iff_pattern spec_email_pattern_def by blast
  from c have no_at: "at_sign \<notin> set c" by (rule plain_chars_without_at)
  have distinct: "at_sign \<noteq> dot" by (simp add: at_sign_def dot_def)
  from s assms(2) have "p @ at_sign # q = (a @ at_sign # b) @ dot # c" by simp
  then obtain us where
    "(p = (a @ at_sign # b) @ us \<and> us @ at_sign # q = dot # c) \<or>
     (p @ us = a @ at_sign # b \<and> at_sign # q = us @ dot # c)"
    unfolding append_eq_append_conv2 by blast
  then show ?thesis
  proof
    assume h: "p = (a @ at_sign # b) @ us \<and> us @ at_sign # q = dot # c"
    show ?thesis
    proof (cases us)
      case Nil
      with h distinct show ?thesis by simp
    next
      case (Cons x xs)
      with h have "c = xs @ at_sign # q" by simp
      with no_at show ?thesis by simp
    qed
  next
    assume h: "p @ us = a @ at_sign # b \<and> at_sign # q = us @ dot # c"
    show ?thesis
    proof (cases us)
      case Nil
      with h distinct show ?thesis by simp
    next
      case (Cons x xs)
      with h have "q = xs @ dot # c" by simp
      then show ?thesis by simp
    qed
  qed
qed

text \<open>
  Claim C1, as the code has it.  \<open>validateEmail\<close> is a function of its argument
  alone, and it is true exactly when the string is one or more non-whitespace-non-"@"
  code units, "@", one or more non-quote code units, ".", one or more
  non-whitespace-non-"@" code units.  So every string \<open>a@b.c\<close> whose parts \<open>a\<close> and
  \<open>c\<close> are nonempty and free of whitespace and "@", and whose part \<open>b\<close> is nonempty and
  free of the double quote, is accepted; a string without "@" is rejected; and a string
  with no "." after one of its "@" is rejected.
\<close>

theorem validateEmail_exact:
  "(validateEmail s = spec_email_pattern s) \<and>
   (a \<noteq> [] \<and> list_all plain_char a \<and> b \<noteq> [] \<and> dquote \<notin> set b \<and>
    c \<noteq> [] \<and> list_all plain_char c \<longrightarrow> validateEmail (a @ at_sign # b @ dot # c)) \<and>
   (at_sign \<notin> set s \<longrightarrow> \<not> validateEmail s) \<and>
   (s = p @ at_sign # q \<and> dot \<notin> set q \<longrightarrow> \<not> validateEmail s)"
proof (intro conjI impI)
  show "validateEmail s = spec_email_pattern s"
    by (rule validateEmail_iff_pattern)
next
  assume "a \<noteq> [] \<and> list_all plain_char a \<and> b \<noteq> [] \<and> dquote \<notin> set b \<and>
    c \<noteq> [] \<and> list_all plain_char c"
  then have "spec_email_pattern (a @ at_sign # b @ dot # c)"
    unfolding spec_email_pattern_def by blast
  then show "validateEmail (a @ at_sign # b @ dot # c)"
    by (simp add: validateEmail_iff_pattern)
next
  assume "at_sign \<notin> set s"
  then show "\<not> validateEmail s"
    using valid_email_has_at by blast
next
  assume "s = p @ at_sign # q \<and> dot \<notin> set q"
  then show "\<not> validateEmail s"
    using valid_email_dot_after_at by blast
qed

text \<open>
  The theorem at \<open>a@b.co\<close> (accepted, so it has the shape of the pattern), at
  \<open>ab.co\<close> (no "@") and at \<open>a.b@c\<close> (no "." after the "@").
\<close>

theorem validateEmail_exact_witness:
  "spec_email_pattern (js ''a@b.co'') \<and>
   validateEmail (js ''a'' @ at_sign # js ''b'' @ dot # js ''co'') \<and>
   at_sign \<notin> set (js ''ab.co'') \<and> \<not> validateEmail (js ''ab.co'') \<and>
   js ''a.b@c'' = js ''a.b'' @ at_sign # js ''c'' \<and> dot \<notin> set (js ''c'') \<and>
   \<not> validateEmail (js ''a.b@c'')"
proof -
  have parts: "js ''a'' \<noteq> [] \<and> list_all plain_char (js ''a'') \<and> js ''b'' \<noteq> [] \<and>
      dquote \<notin> set (js ''b'') \<and> js ''co'' \<noteq> [] \<and> list_all plain_char (js ''co'')"
    by (simp add: plain_char_def char_defs)
  have no_at: "at_sign \<notin> set (js ''ab.co'')"
    by (simp add: char_defs)
  have split: "js ''a.b@c'' = js ''a.b'' @ at_sign # js ''c'' \<and> dot \<notin> set (js ''c'')"
    by (simp add: char_defs)
  note inst = validateEmail_exact [where s = "js ''a@b.co''"]
    validateEmail_exact [where a = "js ''a''" and b = "js ''b''" and c = "js ''co''"]
    validateEmail_exact [where s = "js ''ab.co''"]
    validateEmail_exact [where s = "js ''a.b@c''" and p = "js ''a.b''" and q = "js ''c''"]
  from inst parts no_at split sample_email_valid show ?thesis
    by blast
qed

text \<open>
  With outer parts that are merely nonempty the shorthand
  \<open><nonempty>@<nonempty-no-quote>.<nonempty>\<close> is too wide: \<open>a b@c.d\<close> has that shape
  and is rejected, because of the space in its first part.
\<close>

theorem validateEmail_rejects_spaced_local_part:
  "js ''a b@c.d'' = js ''a b'' @ at_sign # js ''c'' @ dot # js ''d'' \<and>
   js ''a b'' \<noteq> [] \<and> js ''c'' \<noteq> [] \<and> dquote \<notin> set (js ''c'') \<and> js ''d'' \<noteq> [] \<and>
   \<not> validateEmail (js ''a b@c.d'')"
  by (simp add: validateEmail_def email_regex_def char_defs)

section \<open>The processing pipeline\<close>

lemma failed_transcription_no_transcript:
  "whisper_fetch env = Resolves r \<Longrightarrow> \<not> response_ok r \<Longrightarrow> transcript_of env = None"
  by (simp add: transcript_of_def)

lemma failed_transcription_run:
  assumes "whisper_fetch env = Resolves r" "\<not> response_ok r"
    and "audioBlob w = Some b" "apiKey w \<noteq> []" "validateEmail (email w)"
  shows "processAudio env w =
    (True, w\<lparr>isProcessing := False, message := js ''Error: Transcription failed'',
             calls := calls w @ [Fetch (whisper_request (apiKey w) b), ConsoleError]\<rparr>)"
  using assms by (simp add: process_defs js_append)

lemma failed_transcription_relay_count:
  assumes "whisper_fetch env = Resolves r" "\<not> response_ok r"
  shows "relay_count (calls_during_process env w) = 0"
proof (cases "audioBlob w = None \<or> apiKey w = [] \<or> \<not> validateEmail (email w)")
  case True
  then show ?thesis
    by (simp add: calls_during_process_def processAudio_refused_calls relay_count_def)
next
  case False
  then obtain b where "audioBlob w = Some b" "apiKey w \<noteq> []" "validateEmail (email w)"
    by auto
  with assms show ?thesis
    by (simp add: calls_during_process_def failed_transcription_run relay_count_def
        whisper_request_def urls_differ)
qed

text \<open>
  Claim C2.  The log of a run of \<open>processAudio\<close> extends the log before it.  When the
  transcription request resolves with a non-success status, the \<open>try\<close> block ends by
  throwing the error "Transcription failed", the run adds no relay call to the log
  (the relay is invoked 0 times), and a run that passed the guard settles with the
  transcription call and the error report as its only calls and with the message
  "Error: Transcription failed".  In every run, a relay call in the log means that the
  transcription request had resolved with a success status and handed over a
  transcript, which the relay call carries, and a transcription call stands before it
  in the log.
\<close>

theorem transcription_failure_never_relays:
  "calls (snd (processAudio env w)) = calls w @ calls_during_process env w \<and>
   (whisper_fetch env = Resolves r \<and> \<not> response_ok r \<longrightarrow>
      relay_count (calls_during_process env w) = 0 \<and>
      relay_count (calls (snd (processAudio env w))) = relay_count (calls w) \<and>
      fst (process_try env b w') =
        Throws (JsError (js ''Error'') (js ''Transcription failed'')) \<and>
      (audioBlob w = Some b \<and> apiKey w \<noteq> [] \<and> validateEmail (email w) \<longrightarrow>
         fst (processAudio env w) \<and>
         calls_during_process env w = [Fetch (whisper_request (apiKey w) b), ConsoleError] \<and>
         message (snd (processAudio env w)) = js ''Error: Transcription failed'')) \<and>
   (calls_during_process env w = pre @ c # post \<and> is_relay c \<longrightarrow>
      (\<exists>r'. whisper_fetch env = Resolves r' \<and> response_ok r') \<and>
      (\<exists>t. transcript_of env = Some t \<and> c = Fetch (lamatic_request t (email w))) \<and>
      (\<exists>x \<in> set pre. is_transcribe x))"
proof (intro conjI impI)
  show "calls (snd (processAudio env w)) = calls w @ calls_during_process env w"
    by (rule processAudio_calls_split)
next
  assume "whisper_fetch env = Resolves r \<and> \<not> response_ok r"
  then show "relay_count (calls_during_process env w) = 0"
    using failed_transcription_relay_count by blast
next
  assume "whisper_fetch env = Resolves r \<and> \<not> response_ok r"
  then have "relay_count (calls_during_process env w) = 0"
    using failed_transcription_relay_count by blast
  then show "relay_count (calls (snd (processAudio env w))) = relay_count (calls w)"
    using processAudio_calls_split [of env w] by (simp add: relay_count_def)
next
  assume "whisper_fetch env = Resolves r \<and> \<not> response_ok r"
  then show "fst (process_try env b w') =
      Throws (JsError (js ''Error'') (js ''Transcription failed''))"
    using process_try_outcome_failed by blast
next
  assume failed: "whisper_fetch env = Resolves r \<and> \<not> response_ok r"
    and ready: "audioBlob w = Some b \<and> apiKey w \<noteq> [] \<and> validateEmail (email w)"
  then have run: "processAudio env w =
    (True, w\<lparr>isProcessing := False, message := js ''Error: Transcription failed'',
             calls := calls w @ [Fetch (whisper_request (apiKey w) b), ConsoleError]\<rparr>)"
    using failed_transcription_run by blast
  from run show "fst (processAudio env w)" by simp
  from run show "calls_during_process env w =
      [Fetch (whisper_request (apiKey w) b), ConsoleError]"
    by (simp add: calls_during_process_def)
  from run show "message (snd (processAudio env w)) = js ''Error: Transcription failed''"
    by simp
next
  assume h: "calls_during_process env w = pre @ c # post \<and> is_relay c"
  then show got: "\<exists>t. transcript_of env = Some t \<and> c = Fetch (lamatic_request t (email w))"
    using relay_needs_transcript by blast
  then show "\<exists>r'. whisper_fetch env = Resolves r' \<and> response_ok r'"
    using transcript_of_SomeD by blast
  from h show "\<exists>x \<in> set pre. is_transcribe x"
    using relay_needs_transcript by blast
qed

text \<open>
  The theorem in the two scenarios of the recorded session: the transcription answer
  500 (no relay call, the failure message), and the answer \<open>hello world\<close> (the relay
  call is the second call, after the transcription call).
\<close>

theorem transcription_failure_never_relays_witness:
  "relay_count (calls_during_process http500_env recorded_world) = 0 \<and>
   fst (processAudio http500_env recorded_world) \<and>
   calls_during_process http500_env recorded_world =
     [Fetch (whisper_request (js ''sk-test'') sample_artifact), ConsoleError] \<and>
   message (snd (processAudio http500_env recorded_world)) =
     js ''Error: Transcription failed'' \<and>
   calls_during_process hello_env recorded_world =
     [Fetch (whisper_request (js ''sk-test'') sample_artifact)] @
       Fetch (lamatic_request (Val (JStr (js ''hello world''))) (js ''a@b.co'')) # [] \<and>
   (\<exists>r'. whisper_fetch hello_env = Resolves r' \<and> response_ok r') \<and>
   (\<exists>t. transcript_of hello_env = Some t) \<and>
   (\<exists>x \<in> set [Fetch (whisper_request (js ''sk-test'') sample_artifact)]. is_transcribe x)"
proof -
  have failed: "whisper_fetch http500_env =
      Resolves \<lparr>status = 500, json_body = Resolves (JObj [])\<rparr> \<and>
      \<not> response_ok \<lparr>status = 500, json_body = Resolves (JObj [])\<rparr>"
    by (simp add: http500_env_def response_ok_def)
  have ready: "audioBlob recorded_world = Some sample_artifact \<and>
      apiKey recorded_world \<noteq> [] \<and> validateEmail (email recorded_world)"
    by (simp add: recorded_world_fields sample_key_nonempty sample_email_valid)
  have hello: "calls_during_process hello_env recorded_world =
      [Fetch (whisper_request (js ''sk-test'') sample_artifact)] @
        Fetch (lamatic_request (Val (JStr (js ''hello world''))) (js ''a@b.co'')) # []"
    by (simp add: calls_during_process_def recorded_world_eq process_defs
        sample_key_nonempty sample_email_valid hello_env_def response_ok_def
        sample_artifact_def)
  have relay: "is_relay (Fetch (lamatic_request (Val (JStr (js ''hello world''))) (js ''a@b.co'')))"
    by (rule lamatic_request_kind)
  from transcription_failure_never_relays
      [where env = http500_env and w = recorded_world and b = sample_artifact
        and r = "\<lparr>status = 500, json_body = Resolves (JObj [])\<rparr>"]
    failed ready
  have "relay_count (calls_during_process http500_env recorded_world) = 0 \<and>
      fst (processAudio http500_env recorded_world) \<and>
      calls_during_process http500_env recorded_world =
        [Fetch (whisper_request (apiKey recorded_world) sample_artifact), ConsoleError] \<and>
      message (snd (processAudio http500_env recorded_world)) =
        js ''Error: Transcription failed''"
    by blast
  then have part1: "relay_count (calls_during_process http500_env recorded_world) = 0 \<and>
      fst (processAudio http500_env recorded_world) \<and>
      calls_during_process http500_env recorded_world =
        [Fetch (whisper_request (js ''sk-test'') sample_artifact), ConsoleError] \<and>
      message (snd (processAudio http500_env recorded_world)) =
        js ''Error: Transcription failed''"
    unfolding recorded_world_fields(2) .
  from transcription_failure_never_relays
      [where env = hello_env and w = recorded_world
        and pre = "[Fetch (whisper_request (js ''sk-test'') sample_artifact)]"
        and c = "Fetch (lamatic_request (Val (JStr (js ''hello world''))) (js ''a@b.co''))"
        and post = "[]"]
    hello relay
  have part2: "(\<exists>r'. whisper_fetch hello_env = Resolves r' \<and> response_ok r') \<and>
      (\<exists>t. transcript_of hello_env = Some t) \<and>
      (\<exists>x \<in> set [Fetch (whisper_request (js ''sk-test'') sample_artifact)]. is_transcribe x)"
    by blast
  from part1 hello part2 show ?thesis by blast
qed

text \<open>
  Claim C3.  For a run of \<open>processAudio\<close> that passes its guard: if every awaited
  promise is answered the run settles; whenever the run settles, the processing flag
  is false afterwards; and when the transcription answer is HTTP 500 the run settles
  with the message "Error: Transcription failed", the transcript as it was before and
  the processing flag false.
\<close>

theorem processing_flag_cleared:
  "audioBlob w = Some b \<and> apiKey w \<noteq> [] \<and> validateEmail (email w) \<longrightarrow>
     (all_answered env \<longrightarrow> fst (processAudio env w)) \<and>
     (fst (processAudio env w) \<longrightarrow> \<not> isProcessing (snd (processAudio env w))) \<and>
     (whisper_fetch env = Resolves r \<and> status r = 500 \<longrightarrow>
        fst (processAudio env w) \<and>
        message (snd (processAudio env w)) = js ''Error: Transcription failed'' \<and>
        transcription (snd (processAudio env w)) = transcription w \<and>
        \<not> isProcessing (snd (processAudio env w)))"
proof (intro impI conjI)
  assume ready: "audioBlob w = Some b \<and> apiKey w \<noteq> [] \<and> validateEmail (email w)"
  {
    assume "all_answered env"
    with ready show "fst (processAudio env w)"
      by (auto simp: process_defs all_answered_def split: promise.splits sum.splits)
  next
    assume "fst (processAudio env w)"
    with ready show "\<not> isProcessing (snd (processAudio env w))"
      by (auto simp: process_defs split: promise.splits sum.splits if_splits)
  next
    assume "whisper_fetch env = Resolves r \<and> status r = 500"
    then have failed: "whisper_fetch env = Resolves r" "\<not> response_ok r"
      by (simp_all add: response_ok_def)
    from failed_transcription_run [OF failed, of w b] ready
    have run: "processAudio env w =
      (True, w\<lparr>isProcessing := False, message := js ''Error: Transcription failed'',
               calls := calls w @ [Fetch (whisper_request (apiKey w) b), ConsoleError]\<rparr>)"
      by simp
    from run show "fst (processAudio env w)" by simp
    from run show "message (snd (processAudio env w)) = js ''Error: Transcription failed''"
      by simp
    from run show "transcription (snd (processAudio env w)) = transcription w" by simp
    from run show "\<not> isProcessing (snd (processAudio env w))" by simp
  }
qed

text \<open>
  The theorem on the recorded session with the transcription answer 500: all promises
  are answered, the run settles, the flag is false, the message reports the failure
  and the transcript is still the empty string of the initial state.
\<close>

theorem processing_flag_cleared_witness:
  "all_answered http500_env \<and>
   fst (processAudio http500_env recorded_world) \<and>
   \<not> isProcessing (snd (processAudio http500_env recorded_world)) \<and>
   message (snd (processAudio http500_env recorded_world)) =
     js ''Error: Transcription failed'' \<and>
   transcription (snd (processAudio http500_env recorded_world)) = Val (JStr [])"
proof -
  have answered: "all_answered http500_env"
    by (simp add: all_answered_def http500_env_def hello_env_def)
  have failed: "whisper_fetch http500_env =
      Resolves \<lparr>status = 500, json_body = Resolves (JObj [])\<rparr> \<and>
      status \<lparr>status = 500, json_body = Resolves (JObj [])\<rparr> = 500"
    by (simp add: http500_env_def)
  have ready: "audioBlob recorded_world = Some sample_artifact \<and>
      apiKey recorded_world \<noteq> [] \<and> validateEmail (email recorded_world)"
    by (simp add: recorded_world_fields sample_key_nonempty sample_email_valid)
  from processing_flag_cleared
      [where env = http500_env and w = recorded_world and b = sample_artifact
        and r = "\<lparr>status = 500, json_body = Resolves (JObj [])\<rparr>"]
    answered failed ready
  have "fst (processAudio http500_env recorded_world) \<and>
      \<not> isProcessing (snd (processAudio http500_env recorded_world)) \<and>
      message (snd (processAudio http500_env recorded_world)) =
        js ''Error: Transcription failed'' \<and>
      transcription (snd (processAudio http500_env recorded_world)) =
        transcription recorded_world"
    by blast
  then have "fst (processAudio http500_env recorded_world) \<and>
      \<not> isProcessing (snd (processAudio http500_env recorded_world)) \<and>
      message (snd (processAudio http500_env recorded_world)) =
        js ''Error: Transcription failed'' \<and>
      transcription (snd (processAudio http500_env recorded_world)) = Val (JStr [])"
    unfolding recorded_world_fields(4) .
  with answered show ?thesis by blast
qed

section \<open>Starting and stopping a capture\<close>

text \<open>
  Claim C4.  While the API key is empty or the email is invalid, a click on the start
  button is rejected: the state, the log of calls with it, stays as it is, so neither
  the microphone stream nor the tab-audio stream is requested.
\<close>

theorem start_rejected_without_credentials:
  "apiKey w = [] \<or> \<not> validateEmail (email w) \<Longrightarrow>
     step (ClickStart env) w = w \<and>
     stream_requests (calls (step (ClickStart env) w)) = stream_requests (calls w)"
  by (simp add: start_disabled_def)

text \<open>
  The theorem in the initial state (no key, no email) and with a key and the email
  \<open>a b@c.d\<close>, which the pattern rejects.
\<close>

theorem start_rejected_without_credentials_witness:
  "step (ClickStart granted_env) initial_world = initial_world \<and>
   stream_requests (calls (step (ClickStart granted_env) initial_world)) = 0 \<and>
   step (ClickStart granted_env)
     (initial_world\<lparr>apiKey := js ''sk-test'', email := js ''a b@c.d''\<rparr>) =
     initial_world\<lparr>apiKey := js ''sk-test'', email := js ''a b@c.d''\<rparr>"
proof -
  have no_key: "apiKey initial_world = []"
    by (simp add: initial_world_def)
  have bad_email:
    "\<not> validateEmail (email (initial_world\<lparr>apiKey := js ''sk-test'', email := js ''a b@c.d''\<rparr>))"
    by (simp add: validateEmail_def email_regex_def char_defs)
  from start_rejected_without_credentials [of initial_world granted_env] no_key
    start_rejected_without_credentials
      [of "initial_world\<lparr>apiKey := js ''sk-test'', email := js ''a b@c.d''\<rparr>" granted_env]
    bad_email
  show ?thesis
    by (simp add: initial_world_def stream_requests_def)
qed

text \<open>
  Claim C5, at the inputs where the code departs from it.  The user grants the
  microphone and then cancels the tab-audio request: \<open>startRecording\<close> reports the
  failure and does not start recording, but the microphone stream it had obtained stays
  live; the only calls are the two requests and the error report, and no track is
  stopped.  Likewise, when both streams are granted and the mixing graph cannot be
  constructed, both streams stay live and the audio context stays open.
\<close>

theorem failed_start_leaves_streams_live:
  "calls tab_denied_world = [GetUserMedia, GetDisplayMedia, ConsoleError] \<and>
   live_streams tab_denied_world = [0] \<and>
   \<not> isRecording tab_denied_world \<and>
   message tab_denied_world =
     js ''Error: Could not start recording. Please check permissions.'' \<and>
   calls graph_failed_world =
     [GetUserMedia, GetDisplayMedia, NewAudioContext, BuildGraph, ConsoleError] \<and>
   live_streams graph_failed_world = [1, 0] \<and> open_contexts graph_failed_world = [2] \<and>
   \<not> isRecording graph_failed_world \<and>
   message graph_failed_world =
     js ''Error: Could not start recording. Please check permissions.''"
  by (simp add: tab_denied_world_def graph_failed_world_def run_def ready_world_eq
      initial_world_def button_defs sample_email_valid sample_key_nonempty start_defs
      tab_denied_env_def graph_failed_env_def granted_env_def)

section \<open>What processing and starting leave in the session\<close>

text \<open>
  Claim C6, as the code has it.  \<open>processAudio\<close> never writes the artifact: after a
  run, settled or not, succeeded or failed, the session holds the artifact it held
  before.
\<close>

theorem processAudio_keeps_artifact:
  "audioBlob (snd (processAudio env w)) = audioBlob w"
  by (rule processAudio_keeps)

theorem processAudio_keeps_artifact_witness:
  "audioBlob (snd (processAudio http500_env recorded_world)) = Some sample_artifact"
  using processAudio_keeps_artifact [of http500_env recorded_world]
  by (simp add: recorded_world_fields)

text \<open>
  The artifact is not discarded: after the successful run of the recorded session the
  session still holds the five bytes it recorded.
\<close>

theorem artifact_held_after_processing:
  "fst (processAudio hello_env recorded_world) \<and>
   message (snd (processAudio hello_env recorded_world)) =
     js ''Success! Audio processed and sent to Lamatic AI. Check your email for results.'' \<and>
   audioBlob (snd (processAudio hello_env recorded_world)) = Some sample_artifact"
  by (simp add: recorded_world_eq process_defs sample_key_nonempty sample_email_valid
      hello_env_def response_ok_def sample_artifact_def)




section \<open>The artifact of a stop\<close>




text \<open>
  Claim C9.  While the recording flag is false, \<open>stopRecording\<close> does nothing: it
  throws nothing, whatever the recorder's \<open>stop()\<close> would do, and returns the whole
  state as it was (recording flag, artifact, transcript, message and the log of calls),
  and so does a click on the stop button.  The same holds while no recorder was ever
  created, as in the initial state.
\<close>

theorem stop_when_idle_is_noop:
  "(\<not> isRecording w \<longrightarrow>
      stopRecording thrown w = (None, w) \<and> step (ClickStop thrown) w = w) \<and>
   (mediaRecorderRef w = None \<longrightarrow> stopRecording thrown w = (None, w)) \<and>
   stopRecording thrown initial_world = (None, initial_world)"
  by (simp add: stopRecording_def stop_shown_def initial_world_def split: option.splits)

text \<open>
  The theorem in the initial state and in the recorded session, whose recorder exists
  and has stopped, for a recorder whose \<open>stop()\<close> would throw.
\<close>

theorem stop_when_idle_is_noop_witness:
  "stopRecording (Some engine_type_error) initial_world = (None, initial_world) \<and>
   step (ClickStop (Some engine_type_error)) initial_world = initial_world \<and>
   mediaRecorderRef recorded_world = Some 3 \<and>
   stopRecording (Some engine_type_error) recorded_world = (None, recorded_world) \<and>
   audioBlob (snd (stopRecording (Some engine_type_error) initial_world)) = None"
proof -
  have idle: "\<not> isRecording initial_world" "\<not> isRecording recorded_world"
    "mediaRecorderRef initial_world = None" "mediaRecorderRef recorded_world = Some 3"
    "audioBlob initial_world = None"
    by (simp_all add: initial_world_def recorded_world_eq)
  from stop_when_idle_is_noop [of initial_world "Some engine_type_error"]
    stop_when_idle_is_noop [of recorded_world "Some engine_type_error"] idle
  show ?thesis by simp
qed

section \<open>The flag hasAudio\<close>




end
